theory Spec2Isabelle
  imports Main
begin

section \<open>The type dataset (src/data/loaders.js, scripts/scrape.mjs)\<close>

text \<open>
  The sixteen type codes, in the order of the array \<open>TYPE_CODES\<close>.
\<close>

definition TYPE_CODES :: "string list" where
  "TYPE_CODES =
     [''ILE'', ''SEI'', ''LII'', ''ESE'',
      ''SLE'', ''IEI'', ''LSI'', ''EIE'',
      ''SEE'', ''ILI'', ''ESI'', ''LIE'',
      ''LSE'', ''EII'', ''SLI'', ''IEE'']"

text \<open>
  One entry of the object literal \<open>TYPE_INFO\<close>: the fields are free-form strings in
  the source and stay strings here.
\<close>

record TypeInfo =
  fullName :: string
  alias_name :: string
  quadra :: string
  temperament :: string
  leading :: string
  creative :: string

definition TYPE_INFO :: "(string \<times> TypeInfo) list" where
  "TYPE_INFO =
     [(''ILE'', \<lparr>fullName = ''Intuitive Logical Extravert'', alias_name = ''ENTp'', quadra = ''Alpha'', temperament = ''EP'', leading = ''Ne'', creative = ''Ti''\<rparr>),
      (''SEI'', \<lparr>fullName = ''Sensing Ethical Introvert'', alias_name = ''ISFp'', quadra = ''Alpha'', temperament = ''IJ'', leading = ''Si'', creative = ''Fe''\<rparr>),
      (''LII'', \<lparr>fullName = ''Logical Intuitive Introvert'', alias_name = ''INTj'', quadra = ''Alpha'', temperament = ''IJ'', leading = ''Ti'', creative = ''Ne''\<rparr>),
      (''ESE'', \<lparr>fullName = ''Ethical Sensing Extravert'', alias_name = ''ESFj'', quadra = ''Alpha'', temperament = ''EJ'', leading = ''Fe'', creative = ''Si''\<rparr>),
      (''SLE'', \<lparr>fullName = ''Sensing Logical Extravert'', alias_name = ''ESTp'', quadra = ''Beta'', temperament = ''EP'', leading = ''Se'', creative = ''Ti''\<rparr>),
      (''IEI'', \<lparr>fullName = ''Intuitive Ethical Introvert'', alias_name = ''INFp'', quadra = ''Beta'', temperament = ''IP'', leading = ''Ni'', creative = ''Fe''\<rparr>),
      (''LSI'', \<lparr>fullName = ''Logical Sensing Introvert'', alias_name = ''ISTj'', quadra = ''Beta'', temperament = ''IJ'', leading = ''Ti'', creative = ''Se''\<rparr>),
      (''EIE'', \<lparr>fullName = ''Ethical Intuitive Extravert'', alias_name = ''ENFj'', quadra = ''Beta'', temperament = ''EJ'', leading = ''Fe'', creative = ''Ni''\<rparr>),
      (''SEE'', \<lparr>fullName = ''Sensing Ethical Extravert'', alias_name = ''ESFp'', quadra = ''Gamma'', temperament = ''EP'', leading = ''Se'', creative = ''Fi''\<rparr>),
      (''ILI'', \<lparr>fullName = ''Intuitive Logical Introvert'', alias_name = ''INTp'', quadra = ''Gamma'', temperament = ''IP'', leading = ''Ni'', creative = ''Te''\<rparr>),
      (''ESI'', \<lparr>fullName = ''Ethical Sensing Introvert'', alias_name = ''ISFj'', quadra = ''Gamma'', temperament = ''IJ'', leading = ''Fi'', creative = ''Se''\<rparr>),
      (''LIE'', \<lparr>fullName = ''Logical Intuitive Extravert'', alias_name = ''ENTj'', quadra = ''Gamma'', temperament = ''EJ'', leading = ''Te'', creative = ''Ni''\<rparr>),
      (''LSE'', \<lparr>fullName = ''Logical Sensing Extravert'', alias_name = ''ESTj'', quadra = ''Delta'', temperament = ''EJ'', leading = ''Te'', creative = ''Si''\<rparr>),
      (''EII'', \<lparr>fullName = ''Ethical Intuitive Introvert'', alias_name = ''INFj'', quadra = ''Delta'', temperament = ''IJ'', leading = ''Fi'', creative = ''Ne''\<rparr>),
      (''SLI'', \<lparr>fullName = ''Sensing Logical Introvert'', alias_name = ''ISTp'', quadra = ''Delta'', temperament = ''IP'', leading = ''Si'', creative = ''Te''\<rparr>),
      (''IEE'', \<lparr>fullName = ''Intuitive Ethical Extravert'', alias_name = ''ENFp'', quadra = ''Delta'', temperament = ''EP'', leading = ''Ne'', creative = ''Fi''\<rparr>)]"

text \<open>
  A type record as the application receives it: \<open>fetchType\<close>, \<open>parseType\<close> and
  \<open>scrapeTypeViaMediaWiki\<close> all build \<open>{ code, fullName: info.fullName, ... }\<close> from the
  entry of \<open>TYPE_INFO\<close>. The record type is extensible, so the fields taken from the
  fetched page (\<open>overview\<close>, \<open>href\<close>, \<open>revId\<close>, \<open>title\<close>), which the classifier never
  reads, live in the extension slot.
\<close>

record TypeRecord = TypeInfo +
  code :: string

definition typeRecord :: "string \<Rightarrow> TypeInfo \<Rightarrow> TypeRecord" where
  "typeRecord c info =
     \<lparr>fullName = fullName info, alias_name = alias_name info, quadra = quadra info,
      temperament = temperament info, leading = leading info, creative = creative info,
      code = c\<rparr>"

text \<open>
  The canonical records: one per code of \<open>TYPE_CODES\<close>, looked up in \<open>TYPE_INFO\<close>.
  A code without an entry yields no record (\<open>fetchType\<close> throws for it).
\<close>

definition TYPES :: "TypeRecord list" where
  "TYPES = List.map_filter (\<lambda>c. map_option (typeRecord c) (map_of TYPE_INFO c)) TYPE_CODES"

definition DUAL_PAIRS :: "(string \<times> string) list" where
  "DUAL_PAIRS =
     [(''ILE'', ''SEI''), (''LII'', ''ESE''), (''SLE'', ''IEI''), (''LSI'', ''EIE''),
      (''SEE'', ''ILI''), (''ESI'', ''LIE''), (''LSE'', ''EII''), (''SLI'', ''IEE'')]"

section \<open>Sorted pair keys\<close>

text \<open>
  \<open>Array.prototype.sort\<close> without a comparator orders strings by their UTF-16 code
  units; \<open>js_less\<close> is that order on strings of single-unit characters.
\<close>

fun js_less :: "string \<Rightarrow> string \<Rightarrow> bool" where
  "js_less [] [] = False"
| "js_less [] (y # ys) = True"
| "js_less (x # xs) [] = False"
| "js_less (x # xs) (y # ys) =
     (if (of_char x :: nat) < of_char y then True
      else if (of_char y :: nat) < of_char x then False
      else js_less xs ys)"

fun js_insert :: "string \<Rightarrow> string list \<Rightarrow> string list" where
  "js_insert x [] = [x]"
| "js_insert x (y # ys) = (if js_less y x then y # js_insert x ys else x # y # ys)"

definition js_sort :: "string list \<Rightarrow> string list" where
  "js_sort xs = foldr js_insert xs []"

fun js_join :: "string \<Rightarrow> string list \<Rightarrow> string" where
  "js_join sep [] = []"
| "js_join sep [x] = x"
| "js_join sep (x # y # ys) = x @ sep @ js_join sep (y # ys)"

text \<open>\<open>function dualKey(a,b){ return [a,b].sort().join("-"); }\<close>\<close>

definition dualKey :: "string \<Rightarrow> string \<Rightarrow> string" where
  "dualKey a b = js_join ''-'' (js_sort [a, b])"

text \<open>
  The relations dataset (\<open>buildRelations\<close>, and \<open>relations\<close> in \<open>scrapeAll\<close>) and the set
  the application derives from it:
  \<open>new Set(relations.filter(r => r.name === "Duality").map(r => [r.a, r.b].sort().join("-")))\<close>.
\<close>

record Relation =
  rel_a :: string
  rel_b :: string
  rel_name :: string
  rel_summary :: string

definition buildRelations :: "Relation list" where
  "buildRelations =
     map (\<lambda>(a, b). \<lparr>rel_a = a, rel_b = b, rel_name = ''Duality'',
        rel_summary = ''Complementary strengths; easy role division; watch for over-reliance on partner's valued elements.''\<rparr>)
       DUAL_PAIRS"

section \<open>The relation classifier\<close>

text \<open>
  The third argument of \<open>classifyRelation\<close> as the code inspects it: a falsy value
  (\<open>null\<close>, \<open>undefined\<close>), an object whose \<open>has\<close> is not a function, or an object with a
  \<open>has\<close> method, which for a \<open>Set\<close> of keys is membership.
\<close>

datatype duals_arg = DualsAbsent | DualsNoHas | DualsSet "string list"

definition DUALS :: duals_arg where
  "DUALS = DualsSet (map (\<lambda>r. js_join ''-'' (js_sort [rel_a r, rel_b r]))
                      (filter (\<lambda>r. rel_name r = ''Duality'') buildRelations))"

datatype js_error = TypeError

text \<open>Reading a property of \<open>null\<close> or \<open>undefined\<close> throws a \<open>TypeError\<close>.\<close>

definition deref :: "'a option \<Rightarrow> js_error + 'a" where
  "deref v = (case v of None \<Rightarrow> Inl TypeError | Some r \<Rightarrow> Inr r)"

text \<open>
  \<open>duals.has(key)\<close>: a \<open>TypeError\<close> when \<open>duals\<close> is \<open>undefined\<close> or \<open>has\<close> is not
  callable.
\<close>

definition duals_has :: "duals_arg \<Rightarrow> string \<Rightarrow> js_error + bool" where
  "duals_has d k =
     (case d of DualsAbsent \<Rightarrow> Inl TypeError
              | DualsNoHas \<Rightarrow> Inl TypeError
              | DualsSet ks \<Rightarrow> Inr (k \<in> set ks))"

definition truthy :: "duals_arg \<Rightarrow> bool" where
  "truthy d = (d \<noteq> DualsAbsent)"

definition has_is_function :: "duals_arg \<Rightarrow> bool" where
  "has_is_function d = (case d of DualsSet ks \<Rightarrow> True | _ \<Rightarrow> False)"

definition RELATION_COLORS :: "(string \<times> string) list" where
  "RELATION_COLORS =
     [(''Identity'', ''#475569''),
      (''Duality'', ''#16a34a''),
      (''Activation'', ''#06b6d4''),
      (''Mirror'', ''#6366f1''),
      (''Semi-duality'', ''#14b8a6''),
      (''Extinguishment'', ''#94a3b8''),
      (''Conflict'', ''#ef4444''),
      (''Business'', ''#f97316''),
      (''Super-ego'', ''#eab308''),
      (''Other'', ''#64748b'')]"

text \<open>
  \<open>x || y\<close> on values that are a string or \<open>undefined\<close> (\<open>None\<close>): \<open>x\<close> when it is a
  non-empty string, else \<open>y\<close>.
\<close>

definition js_or :: "string option \<Rightarrow> string option \<Rightarrow> string option" where
  "js_or x y = (case x of None \<Rightarrow> y | Some s \<Rightarrow> (if s = [] then y else Some s))"

text \<open>\<open>Array.prototype.indexOf\<close>: the first index of the element, or \<open>-1\<close>.\<close>

fun indexOf_from :: "int \<Rightarrow> 'a list \<Rightarrow> 'a \<Rightarrow> int" where
  "indexOf_from i [] x = -1"
| "indexOf_from i (y # ys) x = (if y = x then i else indexOf_from (i + 1) ys x)"

definition indexOf :: "'a list \<Rightarrow> 'a \<Rightarrow> int" where
  "indexOf xs x = indexOf_from 0 xs x"

record RelationResult =
  key :: string
  color :: "string option"

definition classifyRelation ::
  "TypeRecord option \<Rightarrow> TypeRecord option \<Rightarrow> duals_arg \<Rightarrow> js_error + RelationResult" where
  "classifyRelation aType bType duals =
     (if aType = None \<or> bType = None
      then Inr \<lparr>key = ''Other'', color = map_of RELATION_COLORS ''Other''\<rparr>
      else
        (case deref aType of Inl e \<Rightarrow> Inl e | Inr a \<Rightarrow>
        (case deref bType of Inl e \<Rightarrow> Inl e | Inr b \<Rightarrow>
        (let k = js_join ''-'' (js_sort [code a, code b]);
             isIdentity = (code a = code b)
         in
        (case (if truthy duals \<and> has_is_function duals then duals_has duals k else Inr False) of
          Inl e \<Rightarrow> Inl e
        | Inr isDual \<Rightarrow>
        (let sameQuadra = (quadra a = quadra b);
             sameTemp = (temperament a = temperament b);
             sameLead = (leading a = leading b);
             sameCreative = (creative a = creative b);
             activator = (leading a = creative b \<and> creative a = leading b);
             mirror = (sameLead \<and> sameCreative \<and> \<not> isIdentity);
             semiDual = ((leading a = creative b \<and> \<not> activator) \<or> (leading b = creative a \<and> \<not> activator));
             quadraOrder = [''Alpha'', ''Beta'', ''Gamma'', ''Delta''];
             qd = \<bar>indexOf quadraOrder (quadra a) - indexOf quadraOrder (quadra b)\<bar>;
             business = ((qd = 1 \<or> qd = 3) \<and> \<not> isDual \<and> \<not> semiDual);
             conflict = (qd = 2 \<and> \<not> sameQuadra \<and> \<not> isDual);
             extinguishment = ((sameLead \<and> \<not> isIdentity) \<or> (sameCreative \<and> \<not> mirror));
             superEgo = (\<not> isIdentity \<and> \<not> isDual \<and> \<not> sameQuadra \<and> \<not> activator \<and> \<not> mirror
                         \<and> \<not> semiDual \<and> \<not> extinguishment \<and> \<not> business);
             label =
               (if isIdentity then ''Identity''
                else if isDual then ''Duality''
                else if activator then ''Activation''
                else if mirror then ''Mirror''
                else if semiDual then ''Semi-duality''
                else if extinguishment then ''Extinguishment''
                else if conflict then ''Conflict''
                else if business then ''Business''
                else if superEgo then ''Super-ego''
                else ''Other'')
         in Inr \<lparr>key = label,
                 color = js_or (map_of RELATION_COLORS label) (map_of RELATION_COLORS ''Other'')\<rparr>))))))"

subsection \<open>The label chain as a function of the comparisons\<close>

text \<open>
  The flags and the chain of conditionals of \<open>classifyRelation\<close>, with the comparisons
  of the two records and the quadra distance as arguments. Lemma
  \<open>classifyRelation_Some\<close> below shows that this is what the classifier computes.
\<close>

definition label_from ::
  "bool \<Rightarrow> bool \<Rightarrow> bool \<Rightarrow> bool \<Rightarrow> bool \<Rightarrow> bool \<Rightarrow> bool \<Rightarrow> int \<Rightarrow> string" where
  "label_from isIdentity isDual sameQuadra sameLead sameCreative aLbC bLaC qd =
     (let activator = (aLbC \<and> bLaC);
          mirror = (sameLead \<and> sameCreative \<and> \<not> isIdentity);
          semiDual = ((aLbC \<and> \<not> activator) \<or> (bLaC \<and> \<not> activator));
          business = ((qd = 1 \<or> qd = 3) \<and> \<not> isDual \<and> \<not> semiDual);
          conflict = (qd = 2 \<and> \<not> sameQuadra \<and> \<not> isDual);
          extinguishment = ((sameLead \<and> \<not> isIdentity) \<or> (sameCreative \<and> \<not> mirror));
          superEgo = (\<not> isIdentity \<and> \<not> isDual \<and> \<not> sameQuadra \<and> \<not> activator \<and> \<not> mirror
                      \<and> \<not> semiDual \<and> \<not> extinguishment \<and> \<not> business)
      in if isIdentity then ''Identity''
         else if isDual then ''Duality''
         else if activator then ''Activation''
         else if mirror then ''Mirror''
         else if semiDual then ''Semi-duality''
         else if extinguishment then ''Extinguishment''
         else if conflict then ''Conflict''
         else if business then ''Business''
         else if superEgo then ''Super-ego''
         else ''Other'')"

text \<open>The value of \<open>isDual\<close>: membership for a set, \<open>false\<close> for anything else.\<close>

definition dual_bit :: "duals_arg \<Rightarrow> string \<Rightarrow> bool" where
  "dual_bit d k = (case d of DualsSet ks \<Rightarrow> k \<in> set ks | _ \<Rightarrow> False)"

text \<open>The quadra distance \<open>qd\<close> of two records.\<close>

definition quadraDistance :: "TypeRecord \<Rightarrow> TypeRecord \<Rightarrow> int" where
  "quadraDistance a b =
     \<bar>indexOf [''Alpha'', ''Beta'', ''Gamma'', ''Delta''] (quadra a)
        - indexOf [''Alpha'', ''Beta'', ''Gamma'', ''Delta''] (quadra b)\<bar>"

text \<open>The fields of a record that the classifier compares.\<close>

definition sig_of :: "TypeRecord \<Rightarrow> string \<times> string \<times> string \<times> string" where
  "sig_of t = (code t, quadra t, leading t, creative t)"

section \<open>The scraper's page fetches (scripts/scrape.mjs)\<close>

text \<open>
  What the scraper reads of a \<open>Response\<close>: \<open>res.ok\<close>, \<open>res.status\<close>, the text of the body
  (\<open>res.text()\<close>) and the body as JSON (\<open>res.json()\<close>; \<open>None\<close> when the body is not JSON
  and \<open>res.json()\<close> rejects). Of the JSON of a MediaWiki reply the code reads \<open>json.error\<close>
  and \<open>json.parse.text\<close>.
\<close>

record mw_json =
  mw_error :: "string option"
  mw_parse_text :: "string option option"

record response =
  ok :: bool
  status :: nat
  body_text :: string
  body_json :: "mw_json option"

text \<open>
  One call of \<open>fetch\<close> settles to a response or is rejected, by a network error or by the
  abort that the timer of the attempt triggers. The network is the outcome of the \<open>n\<close>-th
  call (\<open>n = 1, 2, ...\<close>) for a URL; the scraper requests every URL in one call of
  \<open>fetchWithRetry\<close> only.
\<close>

datatype fetch_outcome = Resolved response | Rejected string

type_synonym network = "string \<Rightarrow> nat \<Rightarrow> fetch_outcome"

text \<open>
  The timers, requests and pauses of a run, in order: \<open>setTimeout(abort, ms)\<close> for a new
  \<open>AbortController\<close>, \<open>fetch(url)\<close>, the clearing of that timer, \<open>delay(ms)\<close>,
  \<open>console.warn\<close>. After a response with an error status the \<open>catch\<close> block calls
  \<open>clearTimeout\<close> on the timer that is already cleared, which changes nothing and is not
  recorded a second time.
\<close>

datatype effect = SetTimeout int | Fetch string | ClearTimeout | Delay int | Warn

text \<open>
  The errors thrown: the message of the inner error \<open>e\<close> of an attempt is \<open>HTTP <status>\<close>
  or the message of the rejection; the other constructors stand for the \<open>Error\<close> objects
  with the messages \<open>Failed to fetch <url>: <e.message>\<close>, \<open>MediaWiki API error: ...\<close>,
  \<open>No parse for <title>\<close>, and for the \<open>SyntaxError\<close> of \<open>res.json()\<close> and the
  \<open>TypeError\<close> of reading a field of a missing \<open>TYPE_INFO\<close> entry.
\<close>

datatype cause = HttpStatus nat | Message string

datatype scrape_error =
    FailedToFetch string cause
  | MediaWikiApiError string
  | NoParseFor string
  | JsonSyntaxError
  | InfoTypeError

text \<open>The body of the \<open>try\<close> block: \<open>fetch\<close>, then \<open>if (!res.ok) throw new Error(`HTTP ...`)\<close>.\<close>

definition try_fetch :: "fetch_outcome \<Rightarrow> cause + response" where
  "try_fetch out =
     (case out of
        Rejected msg \<Rightarrow> Inl (Message msg)
      | Resolved res \<Rightarrow> if \<not> ok res then Inl (HttpStatus (status res)) else Inr res)"

text \<open>
  The loop \<open>while (true)\<close> of \<open>fetchWithRetry\<close>; the last argument is the value of
  \<open>attempt\<close> on entry to the loop body.
\<close>

function fetchWithRetry_loop ::
  "network \<Rightarrow> string \<Rightarrow> int \<Rightarrow> int \<Rightarrow> nat \<Rightarrow> (scrape_error + response) \<times> effect list" where
  "fetchWithRetry_loop net url timeoutMs retries attempt0 =
     (let attempt = attempt0 + 1 in
      case try_fetch (net url attempt) of
        Inr res \<Rightarrow> (Inr res, [SetTimeout timeoutMs, Fetch url, ClearTimeout])
      | Inl e \<Rightarrow>
          if int attempt > retries + 1
          then (Inl (FailedToFetch url e), [SetTimeout timeoutMs, Fetch url, ClearTimeout])
          else (case fetchWithRetry_loop net url timeoutMs retries attempt of
                  (r, effs) \<Rightarrow>
                    (r, [SetTimeout timeoutMs, Fetch url, ClearTimeout]
                          @ Delay (400 * int attempt) # effs)))"
  by pat_completeness auto
termination
  by (relation "measure (\<lambda>(net, url, timeoutMs, retries, attempt0). nat (retries + 2 - int attempt0))")
     auto

definition fetchWithRetry ::
  "network \<Rightarrow> string \<Rightarrow> int \<Rightarrow> int \<Rightarrow> (scrape_error + response) \<times> effect list" where
  "fetchWithRetry net url timeoutMs retries = fetchWithRetry_loop net url timeoutMs retries 0"

text \<open>
  Every caller writes \<open>fetchWithRetry(url)\<close>, which takes the defaults
  \<open>{ timeoutMs = 8000, retries = 2 }\<close>.
\<close>

definition fetchWithRetry_default ::
  "network \<Rightarrow> string \<Rightarrow> (scrape_error + response) \<times> effect list" where
  "fetchWithRetry_default net url = fetchWithRetry net url 8000 2"

text \<open>\<open>load(url)\<close>: the page as text, handed to the HTML parser.\<close>

definition load :: "network \<Rightarrow> string \<Rightarrow> (scrape_error + string) \<times> effect list" where
  "load net url =
     (case fetchWithRetry_default net url of
        (Inl e, effs) \<Rightarrow> (Inl e, effs)
      | (Inr res, effs) \<Rightarrow> (Inr (body_text res), effs))"

text \<open>
  \<open>URLSearchParams.prototype.toString\<close>: the \<open>application/x-www-form-urlencoded\<close>
  serialisation of a list of name and value pairs, on strings of bytes.
\<close>

definition hex_digit :: "nat \<Rightarrow> char" where
  "hex_digit n = ''0123456789ABCDEF'' ! (n mod 16)"

definition form_encode_char :: "char \<Rightarrow> string" where
  "form_encode_char c =
     (let n = (of_char c :: nat) in
      if (48 \<le> n \<and> n \<le> 57) \<or> (65 \<le> n \<and> n \<le> 90) \<or> (97 \<le> n \<and> n \<le> 122)
         \<or> c \<in> set ''*-._''
      then [c]
      else if n = 32 then ''+''
      else [CHR ''%'', hex_digit (n div 16), hex_digit n])"

definition form_encode :: "string \<Rightarrow> string" where
  "form_encode s = concat (map form_encode_char s)"

definition URLSearchParams_toString :: "(string \<times> string) list \<Rightarrow> string" where
  "URLSearchParams_toString ps =
     js_join ''&'' (map (\<lambda>(k, v). form_encode k @ ''='' @ form_encode v) ps)"

text \<open>
  \<open>const MW_API = process.env.WIKISOCION_API || "https://wikisocion.net/w/api.php"\<close>;
  the argument is the environment variable.
\<close>

definition MW_API :: "string option \<Rightarrow> string" where
  "MW_API env_api =
     (case env_api of
        None \<Rightarrow> ''https://wikisocion.net/w/api.php''
      | Some s \<Rightarrow> if s = [] then ''https://wikisocion.net/w/api.php'' else s)"

text \<open>The world of a run: the network and the environment variable \<open>WIKISOCION_API\<close>.\<close>

record world =
  net :: network
  WIKISOCION_API :: "string option"

text \<open>
  The URL that \<open>mwGet(params)\<close> requests:
  \<open>new URLSearchParams({ format: "json", origin: "*", ...params })\<close> appended to \<open>MW_API\<close>.
\<close>

definition mwGet_url :: "world \<Rightarrow> (string \<times> string) list \<Rightarrow> string" where
  "mwGet_url w params =
     (let q = [(''format'', ''json''), (''origin'', ''*'')] @ params
      in MW_API (WIKISOCION_API w) @ ''?'' @ URLSearchParams_toString q)"

definition mwGet ::
  "world \<Rightarrow> (string \<times> string) list \<Rightarrow> (scrape_error + mw_json) \<times> effect list" where
  "mwGet w params =
     (case fetchWithRetry_default (net w) (mwGet_url w params) of
        (Inl e, effs) \<Rightarrow> (Inl e, effs)
      | (Inr res, effs) \<Rightarrow>
          (case body_json res of
             None \<Rightarrow> (Inl JsonSyntaxError, effs)
           | Some json \<Rightarrow>
               (case mw_error json of
                  Some info \<Rightarrow> (Inl (MediaWikiApiError info), effs)
                | None \<Rightarrow> (Inr json, effs))))"

text \<open>
  \<open>mwParsePage(title)\<close> passes the parameters below and returns \<open>json?.parse\<close>, of which
  only \<open>text\<close> is read.
\<close>

definition mwParsePage_params :: "string \<Rightarrow> (string \<times> string) list" where
  "mwParsePage_params title =
     [(''action'', ''parse''), (''page'', title),
      (''prop'', ''text|sections|revid|displaytitle''),
      (''formatversion'', ''2''), (''redirects'', ''true''),
      (''disableeditsection'', ''true'')]"

definition mwParsePage ::
  "world \<Rightarrow> string \<Rightarrow> (scrape_error + string option option) \<times> effect list" where
  "mwParsePage w title =
     (case mwGet w (mwParsePage_params title) of
        (Inl e, effs) \<Rightarrow> (Inl e, effs)
      | (Inr json, effs) \<Rightarrow> (Inr (mw_parse_text json), effs))"

definition TYPE_PAGES :: "(string \<times> string) list" where
  "TYPE_PAGES =
     [(''ILE'', ''ILE (ENTp)''), (''SEI'', ''SEI (ISFp)''), (''LII'', ''LII (INTj)''),
      (''ESE'', ''ESE (ESFj)''), (''SLE'', ''SLE (ESTp)''), (''IEI'', ''IEI (INFp)''),
      (''LSI'', ''LSI (ISTj)''), (''EIE'', ''EIE (ENFj)''), (''SEE'', ''SEE (ESFp)''),
      (''ILI'', ''ILI (INTp)''), (''ESI'', ''ESI (ISFj)''), (''LIE'', ''LIE (ENTj)''),
      (''LSE'', ''LSE (ESTj)''), (''EII'', ''EII (INFj)''), (''SLI'', ''SLI (ISTp)''),
      (''IEE'', ''IEE (ENFp)'')]"

text \<open>\<open>const pageTitle = TYPE_PAGES[code] || code\<close>\<close>

definition pageTitle :: "string \<Rightarrow> string" where
  "pageTitle c = (case map_of TYPE_PAGES c of None \<Rightarrow> c | Some t \<Rightarrow> if t = [] then c else t)"

text \<open>
  The record that \<open>scrapeTypeViaMediaWiki\<close> and \<open>parseType\<close> return: reading
  \<open>info.fullName\<close> of a missing \<open>TYPE_INFO[code]\<close> throws.
\<close>

definition type_of_info :: "string \<Rightarrow> scrape_error + TypeRecord" where
  "type_of_info c =
     (case map_of TYPE_INFO c of None \<Rightarrow> Inl InfoTypeError | Some info \<Rightarrow> Inr (typeRecord c info))"

definition scrapeTypeViaMediaWiki ::
  "world \<Rightarrow> string \<Rightarrow> (scrape_error + TypeRecord) \<times> effect list" where
  "scrapeTypeViaMediaWiki w c =
     (case mwParsePage w (pageTitle c) of
        (Inl e, effs) \<Rightarrow> (Inl e, effs)
      | (Inr parsed, effs) \<Rightarrow>
          (case parsed of
             Some (Some html) \<Rightarrow>
               if html = [] then (Inl (NoParseFor (pageTitle c)), effs)
               else (type_of_info c, effs)
           | _ \<Rightarrow> (Inl (NoParseFor (pageTitle c)), effs)))"

text \<open>
  The loop of the MediaWiki branches:
  \<open>for (const code of TYPE_CODES) { acc.push(await scrapeTypeViaMediaWiki(code)); await delay(120); }\<close>
\<close>

fun typesFromMediaWiki ::
  "world \<Rightarrow> string list \<Rightarrow> (scrape_error + TypeRecord list) \<times> effect list" where
  "typesFromMediaWiki w [] = (Inr [], [])"
| "typesFromMediaWiki w (c # cs) =
     (case scrapeTypeViaMediaWiki w c of
        (Inl e, effs) \<Rightarrow> (Inl e, effs)
      | (Inr t, effs) \<Rightarrow>
          (case typesFromMediaWiki w cs of
             (Inl e, effs') \<Rightarrow> (Inl e, effs @ Delay 120 # effs')
           | (Inr ts, effs') \<Rightarrow> (Inr (t # ts), effs @ Delay 120 # effs')))"

text \<open>
  \<open>typesFromGitHub\<close>: for every code, \<open>load(`${base}/${code}.html`)\<close> and \<open>parseType\<close>.
\<close>

definition github_url :: "string \<Rightarrow> string" where
  "github_url c = ''https://wikisocion.github.io/content'' @ ''/'' @ c @ ''.html''"

fun typesFromGitHub_loop ::
  "world \<Rightarrow> string list \<Rightarrow> (scrape_error + TypeRecord list) \<times> effect list" where
  "typesFromGitHub_loop w [] = (Inr [], [])"
| "typesFromGitHub_loop w (c # cs) =
     (case load (net w) (github_url c) of
        (Inl e, effs) \<Rightarrow> (Inl e, effs)
      | (Inr html, effs) \<Rightarrow>
          (case type_of_info c of
             Inl e \<Rightarrow> (Inl e, effs)
           | Inr t \<Rightarrow>
               (case typesFromGitHub_loop w cs of
                  (Inl e, effs') \<Rightarrow> (Inl e, effs @ effs')
                | (Inr ts, effs') \<Rightarrow> (Inr (t # ts), effs @ effs'))))"

definition typesFromGitHub :: "world \<Rightarrow> (scrape_error + TypeRecord list) \<times> effect list" where
  "typesFromGitHub w = typesFromGitHub_loop w TYPE_CODES"

text \<open>
  \<open>scrapeAll\<close> up to the end of the fetches: the source used and the type records, or
  the error that rejects the promise. The argument \<open>source\<close> is the value of
  \<open>--source=\<close>, else of \<open>WIKISOCION_SOURCE\<close>, else \<open>auto\<close>. An error of the MediaWiki loop
  is caught in the branches \<open>mediawiki\<close> and \<open>auto\<close>, which then read the GitHub pages.
\<close>

definition scrapeAll ::
  "world \<Rightarrow> string \<Rightarrow> (scrape_error + string \<times> TypeRecord list) \<times> effect list" where
  "scrapeAll w source =
     (if source = ''github''
      then (case typesFromGitHub w of
              (Inl e, effs) \<Rightarrow> (Inl e, effs)
            | (Inr types, effs) \<Rightarrow> (Inr (source, types), effs))
      else
        (case typesFromMediaWiki w TYPE_CODES of
           (Inr acc, effs) \<Rightarrow> (Inr (''mediawiki'', acc), effs)
         | (Inl e, effs) \<Rightarrow>
             (case typesFromGitHub w of
                (Inl e', effs') \<Rightarrow> (Inl e', effs @ Warn # effs')
              | (Inr types, effs') \<Rightarrow> (Inr (''github'', types), effs @ Warn # effs'))))"

text \<open>
  \<open>scrapeAll().catch(e => { console.error(e); process.exit(1); })\<close>: the exit code of
  the run as far as the fetches decide it.
\<close>

definition run_exit_code :: "world \<Rightarrow> string \<Rightarrow> nat" where
  "run_exit_code w source = (case fst (scrapeAll w source) of Inl e \<Rightarrow> 1 | Inr r \<Rightarrow> 0)"

text \<open>
  Two networks to run the scraper on: one where every request is aborted, and one where
  the MediaWiki API does not answer while the GitHub pages are served.
\<close>

definition world_offline :: world where
  "world_offline =
     \<lparr>net = (\<lambda>url n. Rejected ''This operation was aborted''), WIKISOCION_API = None\<rparr>"

definition world_api_down :: world where
  "world_api_down =
     \<lparr>net = (\<lambda>url n.
         if take 32 url = ''https://wikisocion.net/w/api.php''
         then Rejected ''This operation was aborted''
         else Resolved \<lparr>ok = True, status = 200,
                body_text = ''<html><body><p>Socionics type.</p></body></html>'',
                body_json = None\<rparr>),
      WIKISOCION_API = None\<rparr>"

text \<open>
  The schedule the backoff policy describes: \<open>n\<close> attempts numbered from \<open>k\<close>, each with
  its own timer of \<open>timeoutMs\<close>, and after the failed attempt number \<open>j\<close> a pause of
  \<open>400 * j\<close> milliseconds.
\<close>

fun backoff_schedule :: "string \<Rightarrow> int \<Rightarrow> nat \<Rightarrow> nat \<Rightarrow> effect list" where
  "backoff_schedule url timeoutMs k 0 = []"
| "backoff_schedule url timeoutMs k (Suc n) =
     [SetTimeout timeoutMs, Fetch url, ClearTimeout]
       @ (if n = 0 then [] else Delay (400 * int k) # backoff_schedule url timeoutMs (Suc k) n)"

section \<open>Properties of the sort\<close>

lemma js_less_asym: "js_less x y \<Longrightarrow> \<not> js_less y x"
  by (induction x y rule: js_less.induct) (auto split: if_splits)

lemma js_less_total: "\<not> js_less x y \<Longrightarrow> \<not> js_less y x \<Longrightarrow> x = y"
proof (induction x y rule: js_less.induct)
  case (4 x xs y ys)
  from "4.prems" have eq: "(of_char x :: nat) = of_char y"
    by (auto split: if_splits)
  then have "x = y" by simp
  moreover from "4.prems" eq "4.IH" have "xs = ys" by (auto split: if_splits)
  ultimately show ?case by simp
qed auto

lemma js_sort_pair: "js_sort [x, y] = (if js_less y x then [y, x] else [x, y])"
  by (simp add: js_sort_def)

lemma js_sort_pair_commute: "js_sort [x, y] = js_sort [y, x]"
  using js_less_asym [of x y] js_less_total [of x y]
  by (auto simp: js_sort_pair)

lemma dualKey_commute: "dualKey x y = dualKey y x"
  by (simp add: dualKey_def js_sort_pair_commute [of x y])

section \<open>The classifier on two records\<close>

lemma isDual_value:
  "(if truthy duals \<and> has_is_function duals then duals_has duals k else Inr False)
     = Inr (dual_bit duals k)"
  by (cases duals) (simp_all add: truthy_def has_is_function_def duals_has_def dual_bit_def)

lemma classifyRelation_Some:
  "classifyRelation (Some a) (Some b) duals =
     Inr \<lparr>key = label_from (code a = code b) (dual_bit duals (dualKey (code a) (code b)))
                   (quadra a = quadra b) (leading a = leading b) (creative a = creative b)
                   (leading a = creative b) (leading b = creative a) (quadraDistance a b),
          color = js_or (map_of RELATION_COLORS
                  (label_from (code a = code b) (dual_bit duals (dualKey (code a) (code b)))
                   (quadra a = quadra b) (leading a = leading b) (creative a = creative b)
                   (leading a = creative b) (leading b = creative a) (quadraDistance a b)))
                  (map_of RELATION_COLORS ''Other'')\<rparr>"
  unfolding classifyRelation_def deref_def isDual_value Let_def label_from_def dualKey_def
    quadraDistance_def
  by (simp only: option.simps sum.simps simp_thms if_False eq_commute [of "creative a" "leading b"])

lemma label_from_swap:
  "label_from I D Q L C p q d = label_from I D Q L C q p d"
  unfolding label_from_def Let_def
  by (cases p; cases q; simp)

lemma quadraDistance_commute: "quadraDistance a b = quadraDistance b a"
  unfolding quadraDistance_def by (rule abs_minus_commute)

lemma classifyRelation_commute:
  "classifyRelation (Some a) (Some b) duals = classifyRelation (Some b) (Some a) duals"
  unfolding classifyRelation_Some
  by (simp only: dualKey_commute [of "code b" "code a"] quadraDistance_commute [of b a]
      eq_commute [of "code b" "code a"] eq_commute [of "quadra b" "quadra a"]
      eq_commute [of "leading b" "leading a"] eq_commute [of "creative b" "creative a"]
      label_from_swap [of _ _ _ _ _ "leading b = creative a" "leading a = creative b"])


lemma if_pred: "P x \<Longrightarrow> P y \<Longrightarrow> P (if c then x else y)"
  by simp

lemma label_from_range:
  "label_from I D Q L C p q d \<in> {''Identity'', ''Duality'', ''Activation'', ''Mirror'',
     ''Semi-duality'', ''Extinguishment'', ''Conflict'', ''Business'', ''Super-ego'', ''Other''}"
  unfolding label_from_def Let_def
  by (intro if_pred [where P = "\<lambda>x. x \<in> _"]) simp_all

lemma label_from_Identity: "label_from True D Q L C p q d = ''Identity''"
  by (simp add: label_from_def)

lemma label_from_not_Identity: "label_from False D Q L C p q d \<noteq> ''Identity''"
  unfolding label_from_def Let_def
  apply (simp only: if_False)
  apply (intro if_pred [where P = "\<lambda>x. x \<noteq> _"])
  apply simp_all
  done

lemma label_from_Duality: "label_from False True Q L C p q d = ''Duality''"
  by (simp add: label_from_def)

lemma label_from_Conflict: "label_from False False False False False False False 2 = ''Conflict''"
  by (simp add: label_from_def)

lemma label_from_Other: "label_from I D Q L C p q d = ''Other'' \<Longrightarrow> Q \<and> \<not> I"
  unfolding label_from_def Let_def
  by (auto split: if_splits)

lemma label_from_SuperEgo:
  "label_from I D Q L C p q d = ''Super-ego'' \<Longrightarrow> \<not> Q \<and> d \<noteq> 1 \<and> d \<noteq> 2 \<and> d \<noteq> 3"
  unfolding label_from_def Let_def
  by (auto split: if_splits)

lemma label_from_residual:
  "label_from I D Q L C p q d \<notin> {''Identity'', ''Duality'', ''Activation'', ''Mirror'',
      ''Semi-duality'', ''Extinguishment'', ''Business'', ''Conflict''}
   \<Longrightarrow> label_from I D Q L C p q d = (if Q then ''Other'' else ''Super-ego'')"
  unfolding label_from_def Let_def
  by (auto split: if_splits)


section \<open>The canonical data\<close>

lemma TYPES_sig:
  "map sig_of TYPES =
     [(''ILE'', ''Alpha'', ''Ne'', ''Ti''), (''SEI'', ''Alpha'', ''Si'', ''Fe''),
      (''LII'', ''Alpha'', ''Ti'', ''Ne''), (''ESE'', ''Alpha'', ''Fe'', ''Si''),
      (''SLE'', ''Beta'', ''Se'', ''Ti''), (''IEI'', ''Beta'', ''Ni'', ''Fe''),
      (''LSI'', ''Beta'', ''Ti'', ''Se''), (''EIE'', ''Beta'', ''Fe'', ''Ni''),
      (''SEE'', ''Gamma'', ''Se'', ''Fi''), (''ILI'', ''Gamma'', ''Ni'', ''Te''),
      (''ESI'', ''Gamma'', ''Fi'', ''Se''), (''LIE'', ''Gamma'', ''Te'', ''Ni''),
      (''LSE'', ''Delta'', ''Te'', ''Si''), (''EII'', ''Delta'', ''Fi'', ''Ne''),
      (''SLI'', ''Delta'', ''Si'', ''Te''), (''IEE'', ''Delta'', ''Ne'', ''Fi'')]"
  by code_simp

lemma TYPES_cases:
  assumes "t \<in> set TYPES"
  shows "(code t, quadra t, leading t, creative t) \<in> set
     [(''ILE'', ''Alpha'', ''Ne'', ''Ti''), (''SEI'', ''Alpha'', ''Si'', ''Fe''),
      (''LII'', ''Alpha'', ''Ti'', ''Ne''), (''ESE'', ''Alpha'', ''Fe'', ''Si''),
      (''SLE'', ''Beta'', ''Se'', ''Ti''), (''IEI'', ''Beta'', ''Ni'', ''Fe''),
      (''LSI'', ''Beta'', ''Ti'', ''Se''), (''EIE'', ''Beta'', ''Fe'', ''Ni''),
      (''SEE'', ''Gamma'', ''Se'', ''Fi''), (''ILI'', ''Gamma'', ''Ni'', ''Te''),
      (''ESI'', ''Gamma'', ''Fi'', ''Se''), (''LIE'', ''Gamma'', ''Te'', ''Ni''),
      (''LSE'', ''Delta'', ''Te'', ''Si''), (''EII'', ''Delta'', ''Fi'', ''Ne''),
      (''SLI'', ''Delta'', ''Si'', ''Te''), (''IEE'', ''Delta'', ''Ne'', ''Fi'')]"
proof -
  from assms have "sig_of t \<in> set (map sig_of TYPES)" by simp
  then show ?thesis unfolding TYPES_sig by (simp only: sig_of_def)
qed


lemma DUALS_eq:
  "DUALS = DualsSet [''ILE-SEI'', ''ESE-LII'', ''IEI-SLE'', ''EIE-LSI'',
                     ''ILI-SEE'', ''ESI-LIE'', ''EII-LSE'', ''IEE-SLI'']"
  by code_simp


lemma indexOf_quadraOrder:
  "indexOf [''Alpha'', ''Beta'', ''Gamma'', ''Delta''] ''Alpha'' = 0"
  "indexOf [''Alpha'', ''Beta'', ''Gamma'', ''Delta''] ''Beta'' = 1"
  "indexOf [''Alpha'', ''Beta'', ''Gamma'', ''Delta''] ''Gamma'' = 2"
  "indexOf [''Alpha'', ''Beta'', ''Gamma'', ''Delta''] ''Delta'' = 3"
  by (simp_all add: indexOf_def)

lemma TYPES_quadra:
  assumes "t \<in> set TYPES"
  shows "quadra t \<in> {''Alpha'', ''Beta'', ''Gamma'', ''Delta''}"
  using TYPES_cases [OF assms] by auto


lemma canonical_distance:
  assumes "a \<in> set TYPES" and "b \<in> set TYPES"
  shows "quadraDistance a b \<in> {0, 1, 2, 3} \<and> (quadraDistance a b = 0 \<longleftrightarrow> quadra a = quadra b)"
  using TYPES_quadra [OF assms(1)] TYPES_quadra [OF assms(2)]
  unfolding quadraDistance_def
  by (auto simp: indexOf_quadraOrder)

lemma canonical_opposite:
  assumes "a \<in> set TYPES" and "b \<in> set TYPES" and "quadraDistance a b = 2"
  shows "code a \<noteq> code b \<and> quadra a \<noteq> quadra b \<and> leading a \<noteq> leading b
         \<and> creative a \<noteq> creative b \<and> leading a \<noteq> creative b \<and> leading b \<noteq> creative a"
  using TYPES_cases [OF assms(1)] TYPES_cases [OF assms(2)] assms(3)
  unfolding quadraDistance_def list.set insert_iff empty_iff prod.inject
  apply (elim disjE conjE FalseE)
  apply (simp_all only: indexOf_quadraOrder)
  apply simp_all
  done

lemma TYPES_length: "length TYPES = 16"
  by code_simp

lemma TYPES_codes: "map code TYPES = TYPE_CODES"
  by code_simp

lemma TYPES_nth_mem: "i < 16 \<Longrightarrow> TYPES ! i \<in> set TYPES"
  by (simp add: TYPES_length)

lemma DUAL_PAIRS_keys:
  "\<forall>(x, y) \<in> set DUAL_PAIRS. x \<noteq> y \<and> dual_bit DUALS (dualKey x y)"
  by code_simp

lemma label_from_not_Duality: "label_from I False Q L C p q d \<noteq> ''Duality''"
  unfolding label_from_def Let_def
  apply (simp only: if_False)
  apply (intro if_pred [where P = "\<lambda>x. x \<noteq> _"])
  apply simp_all
  done

lemma color_Other:
  "js_or (map_of RELATION_COLORS ''Other'') (map_of RELATION_COLORS ''Other'') = Some ''#64748b''"
  by (simp add: RELATION_COLORS_def js_or_def)

lemma classifyRelation_None:
  "classifyRelation None bType duals = Inr \<lparr>key = ''Other'', color = Some ''#64748b''\<rparr>"
  "classifyRelation aType None duals = Inr \<lparr>key = ''Other'', color = Some ''#64748b''\<rparr>"
  by (simp_all add: classifyRelation_def RELATION_COLORS_def)

lemma classifyRelation_no_set:
  "classifyRelation (Some a) (Some b) DualsAbsent = classifyRelation (Some a) (Some b) (DualsSet [])"
  "classifyRelation (Some a) (Some b) DualsNoHas = classifyRelation (Some a) (Some b) (DualsSet [])"
  unfolding classifyRelation_Some by (simp_all add: dual_bit_def)

lemma duals_has_DUALS: "duals_has DUALS k = Inr (dual_bit DUALS k)"
  by (simp add: DUALS_eq duals_has_def dual_bit_def)

lemma TYPES_nth_sig_gen:
  "i < 16 \<Longrightarrow> sig_of (TYPES ! i) =
     [(''ILE'', ''Alpha'', ''Ne'', ''Ti''), (''SEI'', ''Alpha'', ''Si'', ''Fe''),
      (''LII'', ''Alpha'', ''Ti'', ''Ne''), (''ESE'', ''Alpha'', ''Fe'', ''Si''),
      (''SLE'', ''Beta'', ''Se'', ''Ti''), (''IEI'', ''Beta'', ''Ni'', ''Fe''),
      (''LSI'', ''Beta'', ''Ti'', ''Se''), (''EIE'', ''Beta'', ''Fe'', ''Ni''),
      (''SEE'', ''Gamma'', ''Se'', ''Fi''), (''ILI'', ''Gamma'', ''Ni'', ''Te''),
      (''ESI'', ''Gamma'', ''Fi'', ''Se''), (''LIE'', ''Gamma'', ''Te'', ''Ni''),
      (''LSE'', ''Delta'', ''Te'', ''Si''), (''EII'', ''Delta'', ''Fi'', ''Ne''),
      (''SLI'', ''Delta'', ''Si'', ''Te''), (''IEE'', ''Delta'', ''Ne'', ''Fi'')] ! i"
  by (simp only: TYPES_sig [symmetric] nth_map TYPES_length)

lemma TYPES_nth_sig:
  "sig_of (TYPES ! 0) = (''ILE'', ''Alpha'', ''Ne'', ''Ti'')"
  "sig_of (TYPES ! 2) = (''LII'', ''Alpha'', ''Ti'', ''Ne'')"
  "sig_of (TYPES ! 3) = (''ESE'', ''Alpha'', ''Fe'', ''Si'')"
  "sig_of (TYPES ! 8) = (''SEE'', ''Gamma'', ''Se'', ''Fi'')"
  by (simp_all add: TYPES_nth_sig_gen)

lemma TYPES_nth_fields:
  "code (TYPES ! 0) = ''ILE''" "quadra (TYPES ! 0) = ''Alpha''"
  "leading (TYPES ! 0) = ''Ne''" "creative (TYPES ! 0) = ''Ti''"
  "code (TYPES ! 2) = ''LII''" "quadra (TYPES ! 2) = ''Alpha''"
  "leading (TYPES ! 2) = ''Ti''" "creative (TYPES ! 2) = ''Ne''"
  "code (TYPES ! 3) = ''ESE''" "quadra (TYPES ! 3) = ''Alpha''"
  "leading (TYPES ! 3) = ''Fe''" "creative (TYPES ! 3) = ''Si''"
  "code (TYPES ! 8) = ''SEE''" "quadra (TYPES ! 8) = ''Gamma''"
  "leading (TYPES ! 8) = ''Se''" "creative (TYPES ! 8) = ''Fi''"
  using TYPES_nth_sig unfolding sig_of_def by simp_all

lemmas classify_eval =
  classifyRelation_Some TYPES_nth_fields label_from_def dual_bit_def DUALS_eq dualKey_def
  js_sort_pair quadraDistance_def indexOf_quadraOrder RELATION_COLORS_def js_or_def

lemma classify_ILE_ESE:
  "classifyRelation (Some (TYPES ! 0)) (Some (TYPES ! 3)) DUALS
     = Inr \<lparr>key = ''Other'', color = Some ''#64748b''\<rparr>"
  by (simp add: classify_eval)

lemma classify_ILE_LII:
  "classifyRelation (Some (TYPES ! 0)) (Some (TYPES ! 2)) DUALS
     = Inr \<lparr>key = ''Activation'', color = Some ''#06b6d4''\<rparr>"
  by (simp add: classify_eval)

lemma classify_LII_ESE:
  "classifyRelation (Some (TYPES ! 2)) (Some (TYPES ! 3)) DUALS
     = Inr \<lparr>key = ''Duality'', color = Some ''#16a34a''\<rparr>"
  "classifyRelation (Some (TYPES ! 2)) (Some (TYPES ! 3)) (DualsSet [])
     = Inr \<lparr>key = ''Other'', color = Some ''#64748b''\<rparr>"
  by (simp_all add: classify_eval)

lemma ILE_SEE_opposite:
  "TYPES ! 0 \<noteq> TYPES ! 8" "quadraDistance (TYPES ! 0) (TYPES ! 8) = 2"
  "duals_has DUALS (dualKey (code (TYPES ! 0)) (code (TYPES ! 8))) = Inr False"
proof -
  have "code (TYPES ! 0) \<noteq> code (TYPES ! 8)" by (simp add: TYPES_nth_fields)
  then show "TYPES ! 0 \<noteq> TYPES ! 8" by auto
  show "quadraDistance (TYPES ! 0) (TYPES ! 8) = 2"
    by (simp add: quadraDistance_def TYPES_nth_fields indexOf_quadraOrder)
  show "duals_has DUALS (dualKey (code (TYPES ! 0)) (code (TYPES ! 8))) = Inr False"
    by (simp add: duals_has_def classify_eval)
qed

lemma color_of_label:
  "js_or (map_of RELATION_COLORS ''Identity'') (map_of RELATION_COLORS ''Other'') = Some ''#475569''"
  "js_or (map_of RELATION_COLORS ''Duality'') (map_of RELATION_COLORS ''Other'') = Some ''#16a34a''"
  "js_or (map_of RELATION_COLORS ''Conflict'') (map_of RELATION_COLORS ''Other'') = Some ''#ef4444''"
  by (simp_all add: RELATION_COLORS_def js_or_def)

lemma DUAL_PAIRS_codes:
  "\<forall>(x, y) \<in> set DUAL_PAIRS. x \<in> set TYPE_CODES \<and> y \<in> set TYPE_CODES"
  by code_simp

lemma classifyRelation_dual:
  assumes "code a \<noteq> code b" and "dual_bit DUALS (dualKey (code a) (code b))"
  shows "classifyRelation (Some a) (Some b) DUALS = Inr \<lparr>key = ''Duality'', color = Some ''#16a34a''\<rparr>"
  unfolding classifyRelation_Some using assms
  by (simp add: label_from_Duality color_of_label)

section \<open>The claims about the classifier\<close>

text \<open>
  C1 as stated fails: ILE and ESE are two canonical records of the quadra Alpha that share
  no leading or creative element and are not duals, so none of the eight rules matches,
  and the classifier returns \<open>Other\<close>, not \<open>Super-ego\<close>.
\<close>

theorem Other_is_reached_counterexample:
  "TYPES ! 0 \<in> set TYPES \<and> TYPES ! 3 \<in> set TYPES \<and>
   code (TYPES ! 0) = ''ILE'' \<and> code (TYPES ! 3) = ''ESE'' \<and>
   classifyRelation (Some (TYPES ! 0)) (Some (TYPES ! 3)) DUALS
     = Inr \<lparr>key = ''Other'', color = Some ''#64748b''\<rparr>"
  using TYPES_nth_mem [of 0] TYPES_nth_mem [of 3] classify_ILE_ESE
  by (simp add: TYPES_nth_fields)

text \<open>
  C1, as the code has it. The flag \<open>superEgo\<close> requires different quadras, and two
  canonical records in different quadras always match Duality, Semi-duality, Conflict,
  Business or an earlier rule. So on the canonical records the label \<open>Super-ego\<close> is
  never returned, and a pair that matches none of Identity, Duality, Activation, Mirror,
  Semi-duality, Extinguishment, Business and Conflict is a pair of different records of
  one quadra, for which the classifier returns \<open>Other\<close> with the colour of \<open>Other\<close>.
\<close>

theorem residual_pairs_are_Other:
  "\<forall>a \<in> set TYPES. \<forall>b \<in> set TYPES.
     \<exists>r. classifyRelation (Some a) (Some b) DUALS = Inr r \<and> key r \<noteq> ''Super-ego'' \<and>
       (key r \<notin> {''Identity'', ''Duality'', ''Activation'', ''Mirror'', ''Semi-duality'',
                  ''Extinguishment'', ''Business'', ''Conflict''}
        \<longrightarrow> quadra a = quadra b \<and> code a \<noteq> code b \<and> key r = ''Other''
            \<and> color r = Some ''#64748b'')"
proof (intro ballI)
  fix a b
  assume a: "a \<in> set TYPES" and b: "b \<in> set TYPES"
  define l where "l = label_from (code a = code b) (dual_bit DUALS (dualKey (code a) (code b)))
     (quadra a = quadra b) (leading a = leading b) (creative a = creative b)
     (leading a = creative b) (leading b = creative a) (quadraDistance a b)"
  have r: "classifyRelation (Some a) (Some b) DUALS =
      Inr \<lparr>key = l, color = js_or (map_of RELATION_COLORS l) (map_of RELATION_COLORS ''Other'')\<rparr>"
    unfolding l_def by (rule classifyRelation_Some)
  have no_super: "l \<noteq> ''Super-ego''"
  proof
    assume "l = ''Super-ego''"
    then have "quadra a \<noteq> quadra b \<and> quadraDistance a b \<noteq> 1 \<and> quadraDistance a b \<noteq> 2
        \<and> quadraDistance a b \<noteq> 3"
      unfolding l_def by (rule label_from_SuperEgo)
    with canonical_distance [OF a b] show False by auto
  qed
  have residual: "quadra a = quadra b \<and> code a \<noteq> code b \<and> l = ''Other''"
    if "l \<notin> {''Identity'', ''Duality'', ''Activation'', ''Mirror'', ''Semi-duality'',
              ''Extinguishment'', ''Business'', ''Conflict''}"
  proof -
    from that have "l = (if quadra a = quadra b then ''Other'' else ''Super-ego'')"
      unfolding l_def by (rule label_from_residual)
    with no_super have other: "l = ''Other''" by (simp split: if_splits)
    then have "quadra a = quadra b \<and> code a \<noteq> code b"
      unfolding l_def by (rule label_from_Other)
    with other show ?thesis by simp
  qed
  show "\<exists>r. classifyRelation (Some a) (Some b) DUALS = Inr r \<and> key r \<noteq> ''Super-ego'' \<and>
       (key r \<notin> {''Identity'', ''Duality'', ''Activation'', ''Mirror'', ''Semi-duality'',
                  ''Extinguishment'', ''Business'', ''Conflict''}
        \<longrightarrow> quadra a = quadra b \<and> code a \<noteq> code b \<and> key r = ''Other''
            \<and> color r = Some ''#64748b'')"
    using r no_super residual color_Other by auto
qed

text \<open>The amended C1 at the pair ILE, ESE.\<close>

theorem residual_pairs_are_Other_witness:
  "TYPES ! 0 \<in> set TYPES \<and> TYPES ! 3 \<in> set TYPES \<and>
   classifyRelation (Some (TYPES ! 0)) (Some (TYPES ! 3)) DUALS
     = Inr \<lparr>key = ''Other'', color = Some ''#64748b''\<rparr> \<and>
   ''Other'' \<notin> {''Identity'', ''Duality'', ''Activation'', ''Mirror'', ''Semi-duality'',
                 ''Extinguishment'', ''Business'', ''Conflict''} \<and>
   quadra (TYPES ! 0) = quadra (TYPES ! 3) \<and> code (TYPES ! 0) \<noteq> code (TYPES ! 3)"
proof -
  have m: "TYPES ! 0 \<in> set TYPES" "TYPES ! 3 \<in> set TYPES"
    by (simp_all add: TYPES_nth_mem)
  from residual_pairs_are_Other [rule_format, OF m]
  obtain r where r: "classifyRelation (Some (TYPES ! 0)) (Some (TYPES ! 3)) DUALS = Inr r"
    and imp: "key r \<notin> {''Identity'', ''Duality'', ''Activation'', ''Mirror'', ''Semi-duality'',
                  ''Extinguishment'', ''Business'', ''Conflict''}
        \<Longrightarrow> quadra (TYPES ! 0) = quadra (TYPES ! 3) \<and> code (TYPES ! 0) \<noteq> code (TYPES ! 3)"
    by blast
  from r classify_ILE_ESE have k: "key r = ''Other''" by auto
  have n: "''Other'' \<notin> {''Identity'', ''Duality'', ''Activation'', ''Mirror'', ''Semi-duality'',
                 ''Extinguishment'', ''Business'', ''Conflict''}" by simp
  from imp k n have "quadra (TYPES ! 0) = quadra (TYPES ! 3) \<and> code (TYPES ! 0) \<noteq> code (TYPES ! 3)"
    by simp
  with m classify_ILE_ESE n show ?thesis by blast
qed

text \<open>
  C2: for every ordered pair of distinct canonical records at quadra distance 2 that is not
  a dual pair, the classifier returns \<open>Conflict\<close>.
\<close>

theorem distance_two_is_Conflict:
  "\<forall>a \<in> set TYPES. \<forall>b \<in> set TYPES.
     a \<noteq> b \<and> quadraDistance a b = 2
       \<and> duals_has DUALS (dualKey (code a) (code b)) = Inr False
     \<longrightarrow> classifyRelation (Some a) (Some b) DUALS
           = Inr \<lparr>key = ''Conflict'', color = Some ''#ef4444''\<rparr>"
proof (intro ballI impI)
  fix a b
  assume a: "a \<in> set TYPES" and b: "b \<in> set TYPES"
    and h: "a \<noteq> b \<and> quadraDistance a b = 2
       \<and> duals_has DUALS (dualKey (code a) (code b)) = Inr False"
  from h have d: "quadraDistance a b = 2" by simp
  from h have nd: "\<not> dual_bit DUALS (dualKey (code a) (code b))"
    by (simp add: duals_has_DUALS)
  from canonical_opposite [OF a b d] nd
  show "classifyRelation (Some a) (Some b) DUALS
           = Inr \<lparr>key = ''Conflict'', color = Some ''#ef4444''\<rparr>"
    unfolding classifyRelation_Some
    by (simp add: d label_from_Conflict color_of_label)
qed

text \<open>C2 at the pair ILE (Alpha), SEE (Gamma).\<close>

theorem distance_two_is_Conflict_witness:
  "TYPES ! 0 \<in> set TYPES \<and> TYPES ! 8 \<in> set TYPES \<and> TYPES ! 0 \<noteq> TYPES ! 8 \<and>
   quadraDistance (TYPES ! 0) (TYPES ! 8) = 2 \<and>
   duals_has DUALS (dualKey (code (TYPES ! 0)) (code (TYPES ! 8))) = Inr False \<and>
   classifyRelation (Some (TYPES ! 0)) (Some (TYPES ! 8)) DUALS
     = Inr \<lparr>key = ''Conflict'', color = Some ''#ef4444''\<rparr>"
  using distance_two_is_Conflict [rule_format, of "TYPES ! 0" "TYPES ! 8"]
    TYPES_nth_mem [of 0] TYPES_nth_mem [of 8] ILE_SEE_opposite
  by simp

text \<open>
  C3: for every ordered pair of canonical records and the canonical dual-pair set, the
  classifier returns the same result, so the same label, for \<open>(a, b)\<close> and \<open>(b, a)\<close>.
\<close>

theorem classifyRelation_symmetric:
  "\<forall>a \<in> set TYPES. \<forall>b \<in> set TYPES.
     \<exists>r. classifyRelation (Some a) (Some b) DUALS = Inr r
        \<and> classifyRelation (Some b) (Some a) DUALS = Inr r"
proof (intro ballI)
  fix a b
  have "classifyRelation (Some b) (Some a) DUALS = classifyRelation (Some a) (Some b) DUALS"
    by (rule classifyRelation_commute)
  then show "\<exists>r. classifyRelation (Some a) (Some b) DUALS = Inr r
        \<and> classifyRelation (Some b) (Some a) DUALS = Inr r"
    by (simp add: classifyRelation_Some)
qed

text \<open>C3 at the pair ILE, LII.\<close>

theorem classifyRelation_symmetric_witness:
  "TYPES ! 0 \<in> set TYPES \<and> TYPES ! 2 \<in> set TYPES \<and>
   classifyRelation (Some (TYPES ! 0)) (Some (TYPES ! 2)) DUALS
     = Inr \<lparr>key = ''Activation'', color = Some ''#06b6d4''\<rparr> \<and>
   classifyRelation (Some (TYPES ! 2)) (Some (TYPES ! 0)) DUALS
     = Inr \<lparr>key = ''Activation'', color = Some ''#06b6d4''\<rparr>"
  using classifyRelation_symmetric [rule_format, of "TYPES ! 0" "TYPES ! 2"]
    TYPES_nth_mem [of 0] TYPES_nth_mem [of 2] classify_ILE_LII
  by auto

text \<open>
  C4: for all 256 ordered pairs of canonical records the classifier returns a result
  (no \<open>TypeError\<close> is raised) whose label is one of the ten relation labels.
\<close>

theorem classifyRelation_total:
  "\<forall>a \<in> set TYPES. \<forall>b \<in> set TYPES.
     \<exists>r. classifyRelation (Some a) (Some b) DUALS = Inr r \<and>
       key r \<in> {''Identity'', ''Duality'', ''Activation'', ''Mirror'', ''Semi-duality'',
                 ''Extinguishment'', ''Conflict'', ''Business'', ''Super-ego'', ''Other''}"
  unfolding classifyRelation_Some
  using label_from_range by simp

text \<open>C4 at the pair ILE, LII.\<close>

theorem classifyRelation_total_witness:
  "TYPES ! 0 \<in> set TYPES \<and> TYPES ! 2 \<in> set TYPES \<and>
   (\<exists>r. classifyRelation (Some (TYPES ! 0)) (Some (TYPES ! 2)) DUALS = Inr r \<and>
       key r \<in> {''Identity'', ''Duality'', ''Activation'', ''Mirror'', ''Semi-duality'',
                 ''Extinguishment'', ''Conflict'', ''Business'', ''Super-ego'', ''Other''})"
  using classifyRelation_total [rule_format, of "TYPES ! 0" "TYPES ! 2"]
    TYPES_nth_mem [of 0] TYPES_nth_mem [of 2]
  by simp

text \<open>
  C5: for each of the eight canonical dual pairs, both codes belong to canonical records,
  and for the records with these codes the classifier returns \<open>Duality\<close> in both argument
  orders, given the set of sorted and joined keys \<open>DUALS\<close>.
\<close>

theorem dual_pairs_are_Duality:
  "\<forall>(x, y) \<in> set DUAL_PAIRS.
     x \<in> code ` set TYPES \<and> y \<in> code ` set TYPES \<and>
     (\<forall>a \<in> set TYPES. \<forall>b \<in> set TYPES. code a = x \<and> code b = y \<longrightarrow>
        classifyRelation (Some a) (Some b) DUALS
          = Inr \<lparr>key = ''Duality'', color = Some ''#16a34a''\<rparr> \<and>
        classifyRelation (Some b) (Some a) DUALS
          = Inr \<lparr>key = ''Duality'', color = Some ''#16a34a''\<rparr>)"
proof (intro ballI)
  fix p
  assume p: "p \<in> set DUAL_PAIRS"
  obtain x y where xy: "p = (x, y)" by (cases p)
  have codes: "code ` set TYPES = set TYPE_CODES"
    using TYPES_codes by (metis set_map)
  from p DUAL_PAIRS_codes have mem: "x \<in> code ` set TYPES \<and> y \<in> code ` set TYPES"
    unfolding codes xy by auto
  have both: "classifyRelation (Some a) (Some b) DUALS
          = Inr \<lparr>key = ''Duality'', color = Some ''#16a34a''\<rparr> \<and>
        classifyRelation (Some b) (Some a) DUALS
          = Inr \<lparr>key = ''Duality'', color = Some ''#16a34a''\<rparr>"
    if "code a = x \<and> code b = y" for a b :: TypeRecord
  proof -
    from that p DUAL_PAIRS_keys
    have "code a \<noteq> code b" and "dual_bit DUALS (dualKey (code a) (code b))"
      unfolding xy by auto
    then have "classifyRelation (Some a) (Some b) DUALS
          = Inr \<lparr>key = ''Duality'', color = Some ''#16a34a''\<rparr>"
      by (rule classifyRelation_dual)
    then show ?thesis by (simp only: classifyRelation_commute [of b a])
  qed
  show "case p of (x, y) \<Rightarrow>
     x \<in> code ` set TYPES \<and> y \<in> code ` set TYPES \<and>
     (\<forall>a \<in> set TYPES. \<forall>b \<in> set TYPES. code a = x \<and> code b = y \<longrightarrow>
        classifyRelation (Some a) (Some b) DUALS
          = Inr \<lparr>key = ''Duality'', color = Some ''#16a34a''\<rparr> \<and>
        classifyRelation (Some b) (Some a) DUALS
          = Inr \<lparr>key = ''Duality'', color = Some ''#16a34a''\<rparr>)"
    unfolding xy prod.case using mem both by blast
qed

text \<open>C5 at the pair LII, ESE, whose key is \<open>ESE-LII\<close>.\<close>

theorem dual_pairs_are_Duality_witness:
  "(''LII'', ''ESE'') \<in> set DUAL_PAIRS \<and> TYPES ! 2 \<in> set TYPES \<and> TYPES ! 3 \<in> set TYPES \<and>
   code (TYPES ! 2) = ''LII'' \<and> code (TYPES ! 3) = ''ESE'' \<and>
   classifyRelation (Some (TYPES ! 2)) (Some (TYPES ! 3)) DUALS
     = Inr \<lparr>key = ''Duality'', color = Some ''#16a34a''\<rparr> \<and>
   classifyRelation (Some (TYPES ! 3)) (Some (TYPES ! 2)) DUALS
     = Inr \<lparr>key = ''Duality'', color = Some ''#16a34a''\<rparr>"
proof -
  have p: "(''LII'', ''ESE'') \<in> set DUAL_PAIRS" by (simp add: DUAL_PAIRS_def)
  have m: "TYPES ! 2 \<in> set TYPES" "TYPES ! 3 \<in> set TYPES" by (simp_all add: TYPES_nth_mem)
  have c: "code (TYPES ! 2) = ''LII'' \<and> code (TYPES ! 3) = ''ESE''"
    by (simp add: TYPES_nth_fields)
  from bspec [OF dual_pairs_are_Duality p]
  have "\<forall>a \<in> set TYPES. \<forall>b \<in> set TYPES. code a = ''LII'' \<and> code b = ''ESE'' \<longrightarrow>
        classifyRelation (Some a) (Some b) DUALS
          = Inr \<lparr>key = ''Duality'', color = Some ''#16a34a''\<rparr> \<and>
        classifyRelation (Some b) (Some a) DUALS
          = Inr \<lparr>key = ''Duality'', color = Some ''#16a34a''\<rparr>"
    unfolding prod.case by (elim conjE)
  with m c
  have "classifyRelation (Some (TYPES ! 2)) (Some (TYPES ! 3)) DUALS
     = Inr \<lparr>key = ''Duality'', color = Some ''#16a34a''\<rparr> \<and>
   classifyRelation (Some (TYPES ! 3)) (Some (TYPES ! 2)) DUALS
     = Inr \<lparr>key = ''Duality'', color = Some ''#16a34a''\<rparr>"
    by blast
  with p m c show ?thesis by blast
qed

text \<open>
  C6: the classifier returns \<open>Identity\<close> for every canonical record paired with itself,
  and a label other than \<open>Identity\<close> for every pair of canonical records with distinct
  codes.
\<close>

theorem Identity_exactly_on_equal_codes:
  "(\<forall>a \<in> set TYPES. classifyRelation (Some a) (Some a) DUALS
        = Inr \<lparr>key = ''Identity'', color = Some ''#475569''\<rparr>) \<and>
   (\<forall>a \<in> set TYPES. \<forall>b \<in> set TYPES. code a \<noteq> code b \<longrightarrow>
        (\<exists>r. classifyRelation (Some a) (Some b) DUALS = Inr r \<and> key r \<noteq> ''Identity''))"
  unfolding classifyRelation_Some
  by (simp add: label_from_Identity label_from_not_Identity color_of_label)

text \<open>C6 at ILE with itself and at ILE with LII.\<close>

theorem Identity_exactly_on_equal_codes_witness:
  "TYPES ! 0 \<in> set TYPES \<and> TYPES ! 2 \<in> set TYPES \<and> code (TYPES ! 0) \<noteq> code (TYPES ! 2) \<and>
   classifyRelation (Some (TYPES ! 0)) (Some (TYPES ! 0)) DUALS
        = Inr \<lparr>key = ''Identity'', color = Some ''#475569''\<rparr> \<and>
   (\<exists>r. classifyRelation (Some (TYPES ! 0)) (Some (TYPES ! 2)) DUALS = Inr r \<and> key r \<noteq> ''Identity'')"
proof -
  have m: "TYPES ! 0 \<in> set TYPES" "TYPES ! 2 \<in> set TYPES" by (simp_all add: TYPES_nth_mem)
  have c: "code (TYPES ! 0) \<noteq> code (TYPES ! 2)" by (simp add: TYPES_nth_fields)
  from Identity_exactly_on_equal_codes m c show ?thesis by blast
qed

text \<open>
  C7: the eight dual pairs are a perfect matching on the sixteen codes: the two codes of
  a pair are different type codes, every type code occurs in exactly one pair, and two
  pairs that contain the same code are the same pair, so no code has two partners.
\<close>

theorem DUAL_PAIRS_perfect_matching:
  "length DUAL_PAIRS = 8 \<and> length TYPE_CODES = 16 \<and> distinct TYPE_CODES \<and>
   (\<forall>(a, b) \<in> set DUAL_PAIRS. a \<noteq> b \<and> a \<in> set TYPE_CODES \<and> b \<in> set TYPE_CODES) \<and>
   (\<forall>c \<in> set TYPE_CODES. length (filter (\<lambda>(a, b). a = c \<or> b = c) DUAL_PAIRS) = 1) \<and>
   (\<forall>c \<in> set TYPE_CODES. \<forall>(a, b) \<in> set DUAL_PAIRS. \<forall>(a', b') \<in> set DUAL_PAIRS.
       (c = a \<or> c = b) \<and> (c = a' \<or> c = b') \<longrightarrow> (a, b) = (a', b'))"
  by code_simp

text \<open>C7 at the code ESE and the pair LII, ESE.\<close>

theorem DUAL_PAIRS_perfect_matching_witness:
  "''ESE'' \<in> set TYPE_CODES \<and> (''LII'', ''ESE'') \<in> set DUAL_PAIRS \<and>
   length (filter (\<lambda>(a, b). a = ''ESE'' \<or> b = ''ESE'') DUAL_PAIRS) = 1 \<and>
   ''LII'' \<noteq> ''ESE'' \<and> ''LII'' \<in> set TYPE_CODES"
proof -
  have c: "''ESE'' \<in> set TYPE_CODES" by (simp add: TYPE_CODES_def)
  have p: "(''LII'', ''ESE'') \<in> set DUAL_PAIRS" by (simp add: DUAL_PAIRS_def)
  from DUAL_PAIRS_perfect_matching c
  have "length (filter (\<lambda>(a, b). a = ''ESE'' \<or> b = ''ESE'') DUAL_PAIRS) = 1" by blast
  moreover from DUAL_PAIRS_perfect_matching p
  have "''LII'' \<noteq> ''ESE'' \<and> ''LII'' \<in> set TYPE_CODES" by blast
  ultimately show ?thesis using c p by blast
qed

text \<open>
  C8: in every canonical record the leading element differs from the creative element.
\<close>

theorem leading_differs_from_creative:
  "\<forall>t \<in> set TYPES. leading t \<noteq> creative t"
proof
  fix t assume "t \<in> set TYPES"
  from TYPES_cases [OF this] show "leading t \<noteq> creative t" by auto
qed

text \<open>C8 at ILE, with leading \<open>Ne\<close> and creative \<open>Ti\<close>.\<close>

theorem leading_differs_from_creative_witness:
  "TYPES ! 0 \<in> set TYPES \<and> leading (TYPES ! 0) = ''Ne'' \<and> creative (TYPES ! 0) = ''Ti'' \<and>
   leading (TYPES ! 0) \<noteq> creative (TYPES ! 0)"
  using leading_differs_from_creative [rule_format, of "TYPES ! 0"] TYPES_nth_mem [of 0]
  by (simp add: TYPES_nth_fields)

text \<open>
  C10: when either record argument is \<open>null\<close> or \<open>undefined\<close> the classifier returns
  \<open>Other\<close> with the colour of \<open>Other\<close> and raises nothing; when \<open>duals\<close> is absent or has
  no \<open>has\<close> method, the result is the one for an empty set of keys, that is, the duality
  test is false, no error is raised and the label is never \<open>Duality\<close>.
\<close>

theorem classifyRelation_missing_arguments:
  "classifyRelation None bType duals = Inr \<lparr>key = ''Other'', color = Some ''#64748b''\<rparr> \<and>
   classifyRelation aType None duals = Inr \<lparr>key = ''Other'', color = Some ''#64748b''\<rparr> \<and>
   classifyRelation (Some a) (Some b) DualsAbsent = classifyRelation (Some a) (Some b) (DualsSet []) \<and>
   classifyRelation (Some a) (Some b) DualsNoHas = classifyRelation (Some a) (Some b) (DualsSet []) \<and>
   (\<exists>r. classifyRelation (Some a) (Some b) (DualsSet []) = Inr r \<and> key r \<noteq> ''Duality'')"
proof -
  have "\<exists>r. classifyRelation (Some a) (Some b) (DualsSet []) = Inr r \<and> key r \<noteq> ''Duality''"
    unfolding classifyRelation_Some
    by (simp add: dual_bit_def label_from_not_Duality)
  then show ?thesis
    using classifyRelation_None [of bType duals] classifyRelation_None(2) [of aType duals]
      classifyRelation_no_set [of a b]
    by simp
qed

text \<open>
  C10 at the dual pair LII, ESE: \<open>Duality\<close> with the canonical set, \<open>Other\<close> without it.
\<close>

theorem classifyRelation_missing_arguments_witness:
  "classifyRelation None (Some (TYPES ! 3)) DUALS = Inr \<lparr>key = ''Other'', color = Some ''#64748b''\<rparr> \<and>
   classifyRelation (Some (TYPES ! 2)) None DUALS = Inr \<lparr>key = ''Other'', color = Some ''#64748b''\<rparr> \<and>
   classifyRelation (Some (TYPES ! 2)) (Some (TYPES ! 3)) DUALS
     = Inr \<lparr>key = ''Duality'', color = Some ''#16a34a''\<rparr> \<and>
   classifyRelation (Some (TYPES ! 2)) (Some (TYPES ! 3)) DualsAbsent
     = Inr \<lparr>key = ''Other'', color = Some ''#64748b''\<rparr> \<and>
   classifyRelation (Some (TYPES ! 2)) (Some (TYPES ! 3)) DualsNoHas
     = Inr \<lparr>key = ''Other'', color = Some ''#64748b''\<rparr>"
  using classifyRelation_missing_arguments [of "Some (TYPES ! 3)" DUALS "Some (TYPES ! 2)" "TYPES ! 2" "TYPES ! 3"]
    classify_LII_ESE
  by simp

section \<open>The retry loop\<close>

lemma fetchWithRetry_loop_schedule:
  "\<exists>n. 0 < n \<and> snd (fetchWithRetry_loop nw url timeoutMs retries a0)
       = backoff_schedule url timeoutMs (Suc a0) n"
proof (induction nw url timeoutMs retries a0 rule: fetchWithRetry_loop.induct)
  case (1 nw url timeoutMs retries a0)
  show ?case
  proof (cases "try_fetch (nw url (a0 + 1))")
    case (Inr res)
    then have "snd (fetchWithRetry_loop nw url timeoutMs retries a0)
        = backoff_schedule url timeoutMs (Suc a0) 1"
      by simp
    then show ?thesis by blast
  next
    case (Inl e)
    show ?thesis
    proof (cases "int (a0 + 1) > retries + 1")
      case True
      with Inl have "snd (fetchWithRetry_loop nw url timeoutMs retries a0)
          = backoff_schedule url timeoutMs (Suc a0) 1"
        by simp
      then show ?thesis by blast
    next
      case False
      from "1.IH" [OF refl Inl False]
      obtain n where n: "0 < n"
        and s: "snd (fetchWithRetry_loop nw url timeoutMs retries (a0 + 1))
                  = backoff_schedule url timeoutMs (Suc (a0 + 1)) n"
        by blast
      from Inl False s n
      have "snd (fetchWithRetry_loop nw url timeoutMs retries a0)
          = backoff_schedule url timeoutMs (Suc a0) (Suc n)"
        by (simp add: split_beta)
      then show ?thesis by blast
    qed
  qed
qed

lemma fetchWithRetry_loop_throws:
  assumes "\<forall>k. \<exists>e. try_fetch (nw url k) = Inl e"
  shows "\<exists>c. fst (fetchWithRetry_loop nw url timeoutMs retries a0) = Inl (FailedToFetch url c)"
  using assms
proof (induction nw url timeoutMs retries a0 rule: fetchWithRetry_loop.induct)
  case (1 nw url timeoutMs retries a0)
  from "1.prems" obtain e where e: "try_fetch (nw url (a0 + 1)) = Inl e" by blast
  show ?case
  proof (cases "int (a0 + 1) > retries + 1")
    case True
    with e show ?thesis by simp
  next
    case False
    from "1.IH" [OF refl e False "1.prems"]
    obtain c where "fst (fetchWithRetry_loop nw url timeoutMs retries (a0 + 1)) = Inl (FailedToFetch url c)"
      by blast
    with e False show ?thesis by (simp add: split_beta)
  qed
qed

lemma fetchWithRetry_loop_ok:
  assumes "fst (fetchWithRetry_loop nw url timeoutMs retries a0) = Inr res"
  shows "ok res \<and> (\<exists>k. nw url k = Resolved res)"
  using assms
proof (induction nw url timeoutMs retries a0 rule: fetchWithRetry_loop.induct)
  case (1 nw url timeoutMs retries a0)
  show ?case
  proof (cases "try_fetch (nw url (a0 + 1))")
    case (Inr r)
    with "1.prems" have "r = res" by simp
    with Inr show ?thesis
      by (auto simp: try_fetch_def split: fetch_outcome.splits if_splits)
  next
    case (Inl e)
    show ?thesis
    proof (cases "int (a0 + 1) > retries + 1")
      case True
      with Inl "1.prems" show ?thesis by simp
    next
      case False
      with Inl "1.prems"
      have "fst (fetchWithRetry_loop nw url timeoutMs retries (a0 + 1)) = Inr res"
        by (simp add: split_beta)
      from "1.IH" [OF refl Inl False this] show ?thesis .
    qed
  qed
qed

lemma fetchWithRetry_loop_error:
  assumes "fst (fetchWithRetry_loop nw url timeoutMs retries a0) = Inl err"
  shows "\<exists>c. err = FailedToFetch url c"
  using assms
proof (induction nw url timeoutMs retries a0 rule: fetchWithRetry_loop.induct)
  case (1 nw url timeoutMs retries a0)
  show ?case
  proof (cases "try_fetch (nw url (a0 + 1))")
    case (Inr r)
    with "1.prems" show ?thesis by simp
  next
    case (Inl e)
    show ?thesis
    proof (cases "int (a0 + 1) > retries + 1")
      case True
      with Inl "1.prems" show ?thesis by auto
    next
      case False
      with Inl "1.prems"
      have "fst (fetchWithRetry_loop nw url timeoutMs retries (a0 + 1)) = Inl err"
        by (simp add: split_beta)
      from "1.IH" [OF refl Inl False this] show ?thesis .
    qed
  qed
qed

lemma fetchWithRetry_result:
  "(\<exists>res. fst (fetchWithRetry nw url timeoutMs retries) = Inr res \<and> ok res)
   \<or> (\<exists>c. fst (fetchWithRetry nw url timeoutMs retries) = Inl (FailedToFetch url c))"
proof (cases "fst (fetchWithRetry nw url timeoutMs retries)")
  case (Inl err)
  then show ?thesis
    unfolding fetchWithRetry_def using fetchWithRetry_loop_error by blast
next
  case (Inr res)
  then show ?thesis
    unfolding fetchWithRetry_def using fetchWithRetry_loop_ok by blast
qed

lemma fetchWithRetry_schedule:
  "\<exists>n. 0 < n \<and> snd (fetchWithRetry nw url timeoutMs retries) = backoff_schedule url timeoutMs 1 n"
  using fetchWithRetry_loop_schedule [of nw url timeoutMs retries 0]
  by (simp add: fetchWithRetry_def)

lemma fetchWithRetry_throws:
  assumes "\<forall>k. \<exists>e. try_fetch (nw url k) = Inl e"
  shows "\<exists>c. fst (fetchWithRetry nw url timeoutMs retries) = Inl (FailedToFetch url c)"
  unfolding fetchWithRetry_def using assms by (rule fetchWithRetry_loop_throws)

text \<open>
  The number of attempts when every attempt fails: the loop gives up when
  \<open>attempt > retries + 1\<close>, that is after the attempt number \<open>retries + 2\<close>.
\<close>

lemma fetchWithRetry_loop_attempts:
  assumes "\<forall>k. \<exists>e. try_fetch (nw url k) = Inl e" and "int a0 \<le> retries + 1"
  shows "snd (fetchWithRetry_loop nw url timeoutMs retries a0)
           = backoff_schedule url timeoutMs (Suc a0) (nat (retries + 2) - a0)"
  using assms
proof (induction nw url timeoutMs retries a0 rule: fetchWithRetry_loop.induct)
  case (1 nw url timeoutMs retries a0)
  from "1.prems" obtain e where e: "try_fetch (nw url (a0 + 1)) = Inl e" by blast
  show ?case
  proof (cases "int (a0 + 1) > retries + 1")
    case True
    with "1.prems"(2) have "nat (retries + 2) - a0 = Suc 0" by linarith
    with e True show ?thesis by simp
  next
    case False
    then have le: "int (a0 + 1) \<le> retries + 1" by simp
    from "1.IH" [OF refl e False "1.prems"(1) le]
    have ih: "snd (fetchWithRetry_loop nw url timeoutMs retries (a0 + 1))
        = backoff_schedule url timeoutMs (Suc (a0 + 1)) (nat (retries + 2) - (a0 + 1))" .
    from le have "0 < nat (retries + 2) - (a0 + 1)" by linarith
    then obtain m where m: "nat (retries + 2) - (a0 + 1) = Suc m"
      using gr0_implies_Suc by blast
    then have m': "nat (retries + 2) - a0 = Suc (Suc m)" by linarith
    from e False ih show ?thesis
      unfolding m m' by (simp add: split_beta)
  qed
qed

lemma fetchWithRetry_attempts_when_all_fail:
  assumes "\<forall>k. \<exists>e. try_fetch (nw url k) = Inl e" and "0 \<le> retries"
  shows "snd (fetchWithRetry nw url timeoutMs retries)
           = backoff_schedule url timeoutMs 1 (nat (retries + 2))"
  using fetchWithRetry_loop_attempts [of nw url 0 retries timeoutMs] assms
  by (simp add: fetchWithRetry_def)

section \<open>Propagation of a failed fetch\<close>

lemma load_fails:
  "fst (fetchWithRetry_default nw u) = Inl e \<Longrightarrow> fst (load nw u) = Inl e"
  by (cases "fetchWithRetry_default nw u") (simp add: load_def)

lemma typesFromGitHub_loop_fails:
  assumes "c \<in> set cs" and "fst (fetchWithRetry_default (net w) (github_url c)) = Inl e"
  shows "\<exists>e'. fst (typesFromGitHub_loop w cs) = Inl e'"
  using assms(1)
proof (induction cs)
  case Nil
  then show ?case by simp
next
  case (Cons x xs)
  show ?case
  proof (cases "fst (load (net w) (github_url x))")
    case (Inl e')
    then show ?thesis
      by (cases "load (net w) (github_url x)") simp
  next
    case (Inr html)
    with load_fails [OF assms(2)] have "x \<noteq> c" by auto
    with Cons obtain e' where "fst (typesFromGitHub_loop w xs) = Inl e'" by auto
    with Inr show ?thesis
      by (cases "load (net w) (github_url x)"; cases "typesFromGitHub_loop w xs")
         (simp split: sum.splits)
  qed
qed

lemma scrapeTypeViaMediaWiki_fails:
  assumes "fst (fetchWithRetry_default (net w) (mwGet_url w (mwParsePage_params (pageTitle c)))) = Inl e"
  shows "fst (scrapeTypeViaMediaWiki w c) = Inl e"
proof -
  from assms have "fst (mwGet w (mwParsePage_params (pageTitle c))) = Inl e"
    by (cases "fetchWithRetry_default (net w) (mwGet_url w (mwParsePage_params (pageTitle c)))")
       (simp add: mwGet_def)
  then have "fst (mwParsePage w (pageTitle c)) = Inl e"
    by (cases "mwGet w (mwParsePage_params (pageTitle c))") (simp add: mwParsePage_def)
  then show ?thesis
    by (cases "mwParsePage w (pageTitle c)") (simp add: scrapeTypeViaMediaWiki_def)
qed

lemma typesFromMediaWiki_fails:
  assumes "c \<in> set cs" and "fst (scrapeTypeViaMediaWiki w c) = Inl e"
  shows "\<exists>e'. fst (typesFromMediaWiki w cs) = Inl e'"
  using assms(1)
proof (induction cs)
  case Nil
  then show ?case by simp
next
  case (Cons x xs)
  show ?case
  proof (cases "fst (scrapeTypeViaMediaWiki w x)")
    case (Inl e')
    then show ?thesis
      by (cases "scrapeTypeViaMediaWiki w x") simp
  next
    case (Inr t)
    with assms(2) have "x \<noteq> c" by auto
    with Cons obtain e' where "fst (typesFromMediaWiki w xs) = Inl e'" by auto
    with Inr show ?thesis
      by (cases "scrapeTypeViaMediaWiki w x"; cases "typesFromMediaWiki w xs") simp
  qed
qed

lemma scrapeAll_github:
  "fst (typesFromGitHub w) = Inl e \<Longrightarrow> fst (scrapeAll w ''github'') = Inl e"
  by (cases "typesFromGitHub w") (simp add: scrapeAll_def)

lemma scrapeAll_fallback:
  assumes "source \<noteq> ''github''" and "fst (typesFromMediaWiki w TYPE_CODES) = Inl e"
  shows "fst (scrapeAll w source) = map_sum id (Pair ''github'') (fst (typesFromGitHub w))"
  using assms
  by (cases "typesFromMediaWiki w TYPE_CODES"; cases "typesFromGitHub w")
     (simp add: scrapeAll_def split: sum.splits)

section \<open>The claim about the fetch policy\<close>

text \<open>
  C9, as the code has it. Every attempt of \<open>fetchWithRetry\<close> arms its own timer of
  \<open>timeoutMs\<close> and clears it, and the pause after the failed attempt number \<open>k\<close> is
  \<open>400 * k\<close> milliseconds. The call ends with a response that is \<open>ok\<close> or throws
  \<open>Failed to fetch\<close>, and it throws when every attempt fails. When that happens on a GitHub
  page, \<open>scrapeAll\<close> is rejected and the run exits with code 1. When it happens on a
  MediaWiki page, in the sources \<open>mediawiki\<close> and \<open>auto\<close>, the error is caught and the
  GitHub pages decide the outcome of the run.
\<close>

theorem fetch_policy:
  "(\<exists>n. 0 < n \<and> snd (fetchWithRetry nw url timeoutMs retries) = backoff_schedule url timeoutMs 1 n)
   \<and> ((\<exists>res. fst (fetchWithRetry nw url timeoutMs retries) = Inr res \<and> ok res)
        \<or> (\<exists>c. fst (fetchWithRetry nw url timeoutMs retries) = Inl (FailedToFetch url c)))
   \<and> ((\<forall>k. \<exists>e. try_fetch (nw url k) = Inl e)
        \<longrightarrow> (\<exists>c. fst (fetchWithRetry nw url timeoutMs retries) = Inl (FailedToFetch url c)))
   \<and> ((\<exists>c \<in> set TYPE_CODES. \<exists>e. fst (fetchWithRetry_default (net w) (github_url c)) = Inl e)
        \<longrightarrow> (\<exists>e. fst (typesFromGitHub w) = Inl e \<and> fst (scrapeAll w ''github'') = Inl e)
            \<and> run_exit_code w ''github'' = 1)
   \<and> (source \<noteq> ''github'' \<and>
        (\<exists>c \<in> set TYPE_CODES. \<exists>e.
            fst (fetchWithRetry_default (net w) (mwGet_url w (mwParsePage_params (pageTitle c)))) = Inl e)
        \<longrightarrow> fst (scrapeAll w source) = map_sum id (Pair ''github'') (fst (typesFromGitHub w))
            \<and> run_exit_code w source
                = (case fst (typesFromGitHub w) of Inl e \<Rightarrow> 1 | Inr types \<Rightarrow> 0))"
proof (intro conjI impI)
  show "\<exists>n. 0 < n \<and> snd (fetchWithRetry nw url timeoutMs retries) = backoff_schedule url timeoutMs 1 n"
    by (rule fetchWithRetry_schedule)
next
  show "(\<exists>res. fst (fetchWithRetry nw url timeoutMs retries) = Inr res \<and> ok res)
        \<or> (\<exists>c. fst (fetchWithRetry nw url timeoutMs retries) = Inl (FailedToFetch url c))"
    by (rule fetchWithRetry_result)
next
  assume "\<forall>k. \<exists>e. try_fetch (nw url k) = Inl e"
  then show "\<exists>c. fst (fetchWithRetry nw url timeoutMs retries) = Inl (FailedToFetch url c)"
    by (rule fetchWithRetry_throws)
next
  assume "\<exists>c \<in> set TYPE_CODES. \<exists>e. fst (fetchWithRetry_default (net w) (github_url c)) = Inl e"
  then obtain e where e: "fst (typesFromGitHub w) = Inl e"
    unfolding typesFromGitHub_def using typesFromGitHub_loop_fails by blast
  then have s: "fst (scrapeAll w ''github'') = Inl e" by (rule scrapeAll_github)
  from e s show "\<exists>e. fst (typesFromGitHub w) = Inl e \<and> fst (scrapeAll w ''github'') = Inl e"
    by blast
  from s show "run_exit_code w ''github'' = 1" by (simp add: run_exit_code_def)
next
  assume h: "source \<noteq> ''github'' \<and>
        (\<exists>c \<in> set TYPE_CODES. \<exists>e.
            fst (fetchWithRetry_default (net w) (mwGet_url w (mwParsePage_params (pageTitle c)))) = Inl e)"
  then obtain e where "fst (typesFromMediaWiki w TYPE_CODES) = Inl e"
    using scrapeTypeViaMediaWiki_fails typesFromMediaWiki_fails by blast
  with h show eq: "fst (scrapeAll w source) = map_sum id (Pair ''github'') (fst (typesFromGitHub w))"
    using scrapeAll_fallback by blast
  show "run_exit_code w source = (case fst (typesFromGitHub w) of Inl e \<Rightarrow> 1 | Inr types \<Rightarrow> 0)"
    unfolding run_exit_code_def eq by (cases "fst (typesFromGitHub w)") simp_all
qed

text \<open>
  With the MediaWiki API down and the source \<open>auto\<close>, the fetch of the page of ILE makes
  four attempts, pauses 400, 800 and 1200 milliseconds between them and throws; the run
  then reads the GitHub pages and succeeds.
\<close>

lemma api_down_ILE_fetch:
  "fetchWithRetry_default (net world_api_down) (mwGet_url world_api_down (mwParsePage_params (pageTitle ''ILE'')))
     = (Inl (FailedToFetch (mwGet_url world_api_down (mwParsePage_params (pageTitle ''ILE'')))
               (Message ''This operation was aborted'')),
        backoff_schedule (mwGet_url world_api_down (mwParsePage_params (pageTitle ''ILE''))) 8000 1 4)"
  by code_simp

lemma api_down_run:
  "fst (scrapeAll world_api_down ''auto'') = Inr (''github'', TYPES)"
  "run_exit_code world_api_down ''auto'' = 0"
  by code_simp+

text \<open>
  C9 as stated fails: a page fetch that has used up its retries does not fail the run
  when the page is a MediaWiki page, and with \<open>retries = 2\<close> the fetch is tried four times.
\<close>

theorem failed_fetch_caught_counterexample:
  "fetchWithRetry_default (net world_api_down) (mwGet_url world_api_down (mwParsePage_params (pageTitle ''ILE'')))
     = (Inl (FailedToFetch (mwGet_url world_api_down (mwParsePage_params (pageTitle ''ILE'')))
               (Message ''This operation was aborted'')),
        backoff_schedule (mwGet_url world_api_down (mwParsePage_params (pageTitle ''ILE''))) 8000 1 4)
   \<and> fst (scrapeAll world_api_down ''auto'') = Inr (''github'', TYPES)
   \<and> run_exit_code world_api_down ''auto'' = 0"
  using api_down_ILE_fetch api_down_run by simp

text \<open>
  The amended C9 on the network where every request is aborted (source \<open>github\<close>) and on
  the network where only the MediaWiki API is down (source \<open>auto\<close>).
\<close>

theorem fetch_policy_witness:
  "run_exit_code world_offline ''github'' = 1 \<and>
   fst (scrapeAll world_api_down ''auto'')
     = map_sum id (Pair ''github'') (fst (typesFromGitHub world_api_down))"
proof -
  have ile: "''ILE'' \<in> set TYPE_CODES" by (simp add: TYPE_CODES_def)
  have "\<forall>k. \<exists>e. try_fetch (net world_offline (github_url ''ILE'') k) = Inl e"
    by (simp add: world_offline_def try_fetch_def)
  with fetch_policy [of "net world_offline" "github_url ''ILE''" 8000 2]
  have "\<exists>c. fst (fetchWithRetry_default (net world_offline) (github_url ''ILE''))
          = Inl (FailedToFetch (github_url ''ILE'') c)"
    unfolding fetchWithRetry_default_def by blast
  with ile have "\<exists>c \<in> set TYPE_CODES. \<exists>e.
      fst (fetchWithRetry_default (net world_offline) (github_url c)) = Inl e"
    by blast
  with fetch_policy [of _ _ _ _ world_offline]
  have a: "run_exit_code world_offline ''github'' = 1" by blast
  have "fst (fetchWithRetry_default (net world_api_down)
          (mwGet_url world_api_down (mwParsePage_params (pageTitle ''ILE''))))
        = Inl (FailedToFetch (mwGet_url world_api_down (mwParsePage_params (pageTitle ''ILE'')))
               (Message ''This operation was aborted''))"
    by (simp add: api_down_ILE_fetch)
  with ile have "''auto'' \<noteq> ''github'' \<and> (\<exists>c \<in> set TYPE_CODES. \<exists>e.
      fst (fetchWithRetry_default (net world_api_down)
            (mwGet_url world_api_down (mwParsePage_params (pageTitle c)))) = Inl e)"
    by (intro conjI bexI [of _ "''ILE''"] exI) simp_all
  with fetch_policy [of _ _ _ _ world_api_down "''auto''"]
  have b: "fst (scrapeAll world_api_down ''auto'')
     = map_sum id (Pair ''github'') (fst (typesFromGitHub world_api_down))" by blast
  from a b show ?thesis by simp
qed

end
